theory Spec2Isabelle
  imports Main "HOL-Library.Multiset"
begin

section \<open>Persistence schema (server.py, ThreadDB, PostDB, DocumentDB)\<close>

text \<open>
  The three tables of \<^verbatim>\<open>server.py\<close>. A row is a record whose fields are the columns of
  the declarative class; the fields carry a prefix (\<open>t_\<close>, \<open>p_\<close>, \<open>d_\<close>) because the
  three classes share column names (\<open>id\<close>, \<open>thread_id\<close>, \<open>view_count\<close>, ...).
  A \<open>DateTime\<close> is a point on a linear time axis, here an integer. Python's integers are
  unbounded, so ids and counters are of type \<open>int\<close>, and the limit of the engine's
  integers is checked where a value reaches the engine. The JSON column of a document
  holds what the transfer model admits: a string or a list of lists of strings.
\<close>

type_synonym datetime = int

datatype content = Text string | Grid "string list list"

record ThreadDB =
  t_id :: int
  t_title :: string
  t_created_at :: datetime
  t_updated_at :: datetime
  t_last_activity :: datetime
  t_creator :: string
  t_view_count :: int
  t_reply_count :: int

record PostDB =
  p_id :: int
  p_author :: string
  p_thread_id :: int
  p_text :: string
  p_time :: datetime
  p_image :: "string option"
  p_edited :: bool
  p_seen :: bool
  p_view_count :: int
  p_last_viewed :: "datetime option"
  p_is_initial_post :: bool

record DocumentDB =
  d_id :: string
  d_thread_id :: int
  d_title :: string
  d_content :: content
  d_type :: string
  d_created_at :: datetime
  d_updated_at :: datetime
  d_last_viewed :: "datetime option"
  d_view_count :: int

text \<open>
  The store: the rows of each table in insertion order. The engine is the SQLite file
  database that \<^verbatim>\<open>create_engine("sqlite:///./app.db", ...)\<close> opens; the source sets no
  \<^verbatim>\<open>foreign_keys\<close> pragma, so the \<^verbatim>\<open>ForeignKey("threads.id")\<close> clauses of the schema are
  declared and not checked by the engine. The primary keys are checked.
\<close>

record database =
  threads :: "ThreadDB list"
  posts :: "PostDB list"
  documents :: "DocumentDB list"

definition empty_db :: database where
  "empty_db = \<lparr>threads = [], posts = [], documents = []\<rparr>"

section \<open>Transfer models\<close>

text \<open>\<^verbatim>\<open>PostCreate\<close>: text and an optional image, \<^verbatim>\<open>None\<close> when the payload omits it.\<close>

record PostCreate =
  pc_text :: string
  pc_image :: "string option"

record DocumentCreate =
  dc_title :: string
  dc_thread_id :: int
  dc_content :: content
  dc_type :: string

text \<open>\<^verbatim>\<open>CompleteThread\<close>: a thread with the rows its two relationships load.\<close>

record CompleteThread =
  ct_thread :: ThreadDB
  ct_posts :: "PostDB list"
  ct_documents :: "DocumentDB list"

text \<open>
  An uploaded file as the handlers use it: the suffix of its file name
  (\<^verbatim>\<open>Path(image.filename).suffix\<close>, computed by the standard library) and whether writing
  it under the upload directory raises, with the exception's message.
\<close>

record UploadFile =
  file_extension :: string
  write_error :: "string option"

text \<open>
  What a request reads from its environment: the clock (\<^verbatim>\<open>datetime.utcnow()\<close>, one
  reading per request) and the identifier \<^verbatim>\<open>str(uuid4())\<close> draws.
\<close>

record env =
  now :: datetime
  uuid4 :: string

text \<open>
  Errors. \<open>HTTPException\<close> is what the handlers raise; the others are exceptions no
  handler catches, which the server answers with status 500: an integer that does not
  fit the engine's 64 bits, a primary key that is already taken, and a return value
  that does not validate against the route's \<^verbatim>\<open>response_model\<close>.
\<close>

datatype error =
    HTTPException nat string
  | OverflowError
  | IntegrityError
  | ResponseValidationError

section \<open>Storage operations\<close>

text \<open>
  SQLite integers are signed and 64 bits wide. Python's are unbounded, and the driver
  raises \<^verbatim>\<open>OverflowError\<close> when it is given one outside the range, as a parameter of a
  query or as a value to store.
\<close>

definition sqlite_int :: "int \<Rightarrow> bool" where
  "sqlite_int i \<longleftrightarrow> - (2 ^ 63) \<le> i \<and> i < 2 ^ 63"

text \<open>
  \<^verbatim>\<open>db.query(...).filter(<id column> == i).first()\<close> for an integer id: the first row
  with the id, or none, or the driver's error. A table holds keys of 64 bits only, so
  an id outside the range is the id of no row, and it is for such an id that binding
  the parameter raises.
\<close>

definition first_by_id :: "('r \<Rightarrow> int) \<Rightarrow> int \<Rightarrow> 'r list \<Rightarrow> error + 'r option" where
  "first_by_id key i rows =
     (case find (\<lambda>r. key r = i) rows of
        Some r \<Rightarrow> Inr (Some r)
      | None \<Rightarrow> (if sqlite_int i then Inr None else Inl OverflowError))"

text \<open>
  An \<^verbatim>\<open>Integer\<close> primary key of SQLite: a new row gets the largest key of the table plus
  one, and 1 in an empty table.
\<close>

definition next_id :: "int list \<Rightarrow> int" where
  "next_id ids = (if ids = [] then 1 else Max (set ids) + 1)"

text \<open>\<^verbatim>\<open>UPDATE ... WHERE id = ?\<close> with the values of the loaded object.\<close>

definition update_row :: "('r \<Rightarrow> 'k) \<Rightarrow> 'r \<Rightarrow> 'r list \<Rightarrow> 'r list" where
  "update_row key r rows = map (\<lambda>x. if key x = key r then r else x) rows"

text \<open>
  The image block that \<^verbatim>\<open>create_thread\<close> and \<^verbatim>\<open>create_post\<close> share: no file gives no
  path; a failing write raises 500 with the exception's message; otherwise the path is
  \<^verbatim>\<open>/uploads/<uuid><suffix>\<close>.
\<close>

definition save_image :: "env \<Rightarrow> UploadFile option \<Rightarrow> error + string option" where
  "save_image e upload =
     (case upload of
        None \<Rightarrow> Inr None
      | Some f \<Rightarrow>
          (case write_error f of
             Some msg \<Rightarrow> Inl (HTTPException 500 msg)
           | None \<Rightarrow> Inr (Some (''/uploads/'' @ uuid4 e @ file_extension f))))"

section \<open>Request handlers\<close>

text \<open>
  A handler takes the store and returns the store after the request and either the
  error raised or the value returned. A handler that raises, or whose commit raises,
  leaves the store as it was.
\<close>

text \<open>
  \<^verbatim>\<open>ORDER BY last_activity DESC\<close>: latest first, threads of equal \<open>last_activity\<close> in
  the order of the table.
\<close>

definition get_threads :: "database \<Rightarrow> database \<times> (error + ThreadDB list)" where
  "get_threads db = (db, Inr (sort_key (\<lambda>t. - t_last_activity t) (threads db)))"

text \<open>
  \<^verbatim>\<open>get_thread\<close> stores \<open>view_count + 1\<close>; the commit raises when that no longer fits
  the column. The response carries the rows the two relationships load.
\<close>

definition get_thread :: "env \<Rightarrow> int \<Rightarrow> database \<Rightarrow> database \<times> (error + CompleteThread)" where
  "get_thread e thread_id db =
     (case first_by_id t_id thread_id (threads db) of
        Inl err \<Rightarrow> (db, Inl err)
      | Inr None \<Rightarrow> (db, Inl (HTTPException 404 ''Thread not found''))
      | Inr (Some thread) \<Rightarrow>
          (if \<not> sqlite_int (t_view_count thread + 1) then (db, Inl OverflowError)
           else
             (let thread' = thread\<lparr>t_view_count := t_view_count thread + 1,
                                   t_updated_at := now e\<rparr>
              in (db\<lparr>threads := update_row t_id thread' (threads db)\<rparr>,
                  Inr \<lparr>ct_thread = thread',
                       ct_posts = filter (\<lambda>p. p_thread_id p = thread_id) (posts db),
                       ct_documents = filter (\<lambda>d. d_thread_id d = thread_id) (documents db)\<rparr>))))"

definition create_thread ::
  "env \<Rightarrow> string \<Rightarrow> string \<Rightarrow> string \<Rightarrow> UploadFile option \<Rightarrow> database
     \<Rightarrow> database \<times> (error + ThreadDB)" where
  "create_thread e title creator initial_post upload db =
     (case save_image e upload of
        Inl err \<Rightarrow> (db, Inl err)
      | Inr image_path \<Rightarrow>
          (let db_thread =
                 \<lparr>t_id = next_id (map t_id (threads db)), t_title = title,
                  t_created_at = now e, t_updated_at = now e, t_last_activity = now e,
                  t_creator = creator, t_view_count = 0, t_reply_count = 0\<rparr>;
               db_post =
                 \<lparr>p_id = next_id (map p_id (posts db)), p_author = creator,
                  p_thread_id = t_id db_thread, p_text = initial_post, p_time = now e,
                  p_image = image_path, p_edited = False, p_seen = False,
                  p_view_count = 0, p_last_viewed = None, p_is_initial_post = True\<rparr>
           in (db\<lparr>threads := threads db @ [db_thread], posts := posts db @ [db_post]\<rparr>,
               Inr db_thread)))"

text \<open>
  \<^verbatim>\<open>db.delete(thread)\<close>: the two relationships have \<^verbatim>\<open>cascade="all, delete-orphan"\<close>, so
  the session deletes the posts and documents it loads through them, the rows whose
  \<open>thread_id\<close> is the thread's id, and then the thread.
\<close>

definition delete_thread :: "int \<Rightarrow> database \<Rightarrow> database \<times> (error + string)" where
  "delete_thread thread_id db =
     (case first_by_id t_id thread_id (threads db) of
        Inl err \<Rightarrow> (db, Inl err)
      | Inr None \<Rightarrow> (db, Inl (HTTPException 404 ''Thread not found''))
      | Inr (Some thread) \<Rightarrow>
          (\<lparr>threads = filter (\<lambda>t. t_id t \<noteq> t_id thread) (threads db),
            posts = filter (\<lambda>p. p_thread_id p \<noteq> t_id thread) (posts db),
            documents = filter (\<lambda>d. d_thread_id d \<noteq> t_id thread) (documents db)\<rparr>,
           Inr ''Thread deleted''))"

text \<open>
  The part the two post-creation routes share after the thread is found: insert the
  post, count the reply, move \<open>last_activity\<close> to the clock's reading. The thread row
  is written, so its \<open>updated_at\<close> (\<^verbatim>\<open>onupdate\<close>) moves as well. The commit raises when
  \<open>reply_count + 1\<close> no longer fits the column.
\<close>

definition insert_post :: "env \<Rightarrow> ThreadDB \<Rightarrow> string \<Rightarrow> string \<Rightarrow> string option \<Rightarrow> database
     \<Rightarrow> database \<times> (error + PostDB)" where
  "insert_post e thread author txt image_path db =
     (if \<not> sqlite_int (t_reply_count thread + 1) then (db, Inl OverflowError)
      else
        (let db_post =
               \<lparr>p_id = next_id (map p_id (posts db)), p_author = author,
                p_thread_id = t_id thread, p_text = txt, p_time = now e,
                p_image = image_path, p_edited = False, p_seen = False,
                p_view_count = 0, p_last_viewed = None, p_is_initial_post = False\<rparr>;
             thread' = thread\<lparr>t_reply_count := t_reply_count thread + 1,
                              t_last_activity := now e, t_updated_at := now e\<rparr>
         in (db\<lparr>threads := update_row t_id thread' (threads db),
                 posts := posts db @ [db_post]\<rparr>,
             Inr db_post)))"

definition create_post ::
  "env \<Rightarrow> int \<Rightarrow> string \<Rightarrow> UploadFile option \<Rightarrow> database \<Rightarrow> database \<times> (error + PostDB)" where
  "create_post e thread_id txt upload db =
     (case first_by_id t_id thread_id (threads db) of
        Inl err \<Rightarrow> (db, Inl err)
      | Inr None \<Rightarrow> (db, Inl (HTTPException 404 ''Thread not found''))
      | Inr (Some thread) \<Rightarrow>
          (case save_image e upload of
             Inl err \<Rightarrow> (db, Inl err)
           | Inr image_path \<Rightarrow> insert_post e thread ''user'' txt image_path db))"

definition create_post_json ::
  "env \<Rightarrow> int \<Rightarrow> PostCreate \<Rightarrow> database \<Rightarrow> database \<times> (error + PostDB)" where
  "create_post_json e thread_id post db =
     (case first_by_id t_id thread_id (threads db) of
        Inl err \<Rightarrow> (db, Inl err)
      | Inr None \<Rightarrow> (db, Inl (HTTPException 404 ''Thread not found''))
      | Inr (Some thread) \<Rightarrow>
          insert_post e thread ''system'' (pc_text post) (pc_image post) db)"

text \<open>
  \<^verbatim>\<open>ORDER BY time\<close>: earliest first, posts of equal \<open>time\<close> in the order of the table.
  The thread id is a parameter of the query.
\<close>

definition get_posts :: "int \<Rightarrow> database \<Rightarrow> database \<times> (error + PostDB list)" where
  "get_posts thread_id db =
     (if \<not> sqlite_int thread_id then (db, Inl OverflowError)
      else (db, Inr (sort_key p_time (filter (\<lambda>p. p_thread_id p = thread_id) (posts db)))))"

definition get_documents ::
  "int \<Rightarrow> database \<Rightarrow> database \<times> (error + (string \<times> DocumentDB) list)" where
  "get_documents thread_id db =
     (if \<not> sqlite_int thread_id then (db, Inl OverflowError)
      else (db, Inr (map (\<lambda>doc. (d_id doc, doc))
                      (filter (\<lambda>d. d_thread_id d = thread_id) (documents db)))))"

definition upload_file :: "env \<Rightarrow> UploadFile \<Rightarrow> database \<Rightarrow> database \<times> (error + string)" where
  "upload_file e file db =
     (case write_error file of
        Some msg \<Rightarrow> (db, Inl (HTTPException 500 msg))
      | None \<Rightarrow> (db, Inr (''/uploads/'' @ uuid4 e @ file_extension file)))"

text \<open>
  \<^verbatim>\<open>create_document\<close> looks no thread up. The insert raises when the payload's
  \<open>thread_id\<close> does not fit the column, and when the generated id is already a primary
  key of the table.
\<close>

definition create_document ::
  "env \<Rightarrow> DocumentCreate \<Rightarrow> database \<Rightarrow> database \<times> (error + DocumentDB)" where
  "create_document e document db =
     (if \<not> sqlite_int (dc_thread_id document) then (db, Inl OverflowError)
      else if uuid4 e \<in> set (map d_id (documents db)) then (db, Inl IntegrityError)
      else
        (let db_document =
               \<lparr>d_id = uuid4 e, d_thread_id = dc_thread_id document,
                d_title = dc_title document, d_content = dc_content document,
                d_type = dc_type document, d_created_at = now e, d_updated_at = now e,
                d_last_viewed = None, d_view_count = 0\<rparr>
         in (db\<lparr>documents := documents db @ [db_document]\<rparr>, Inr db_document)))"

definition get_document ::
  "env \<Rightarrow> string \<Rightarrow> database \<Rightarrow> database \<times> (error + DocumentDB)" where
  "get_document e doc_id db =
     (case find (\<lambda>d. d_id d = doc_id) (documents db) of
        None \<Rightarrow> (db, Inl (HTTPException 404 ''Document not found''))
      | Some document \<Rightarrow>
          (if \<not> sqlite_int (d_view_count document + 1) then (db, Inl OverflowError)
           else
             (let document' = document\<lparr>d_view_count := d_view_count document + 1,
                                        d_last_viewed := Some (now e),
                                        d_updated_at := now e\<rparr>
              in (db\<lparr>documents := update_row d_id document' (documents db)\<rparr>,
                  Inr document'))))"

definition delete_document :: "string \<Rightarrow> database \<Rightarrow> database \<times> (error + string)" where
  "delete_document doc_id db =
     (case find (\<lambda>d. d_id d = doc_id) (documents db) of
        None \<Rightarrow> (db, Inl (HTTPException 404 ''Document not found''))
      | Some document \<Rightarrow>
          (db\<lparr>documents := filter (\<lambda>d. d_id d \<noteq> d_id document) (documents db)\<rparr>,
           Inr ''Document deleted''))"

text \<open>
  \<^verbatim>\<open>update_document\<close> sets the four fields of the payload, \<open>thread_id\<close> among them, and
  looks no thread up. The session writes the columns that got a new value, and with
  them \<open>updated_at\<close>; the write raises when a new \<open>thread_id\<close> does not fit the column.
\<close>

definition update_document ::
  "env \<Rightarrow> string \<Rightarrow> DocumentCreate \<Rightarrow> database \<Rightarrow> database \<times> (error + DocumentDB)" where
  "update_document e doc_id document db =
     (case find (\<lambda>d. d_id d = doc_id) (documents db) of
        None \<Rightarrow> (db, Inl (HTTPException 404 ''Document not found''))
      | Some db_document \<Rightarrow>
          (if dc_thread_id document \<noteq> d_thread_id db_document \<and>
              \<not> sqlite_int (dc_thread_id document)
           then (db, Inl OverflowError)
           else
             (let set_fields = db_document\<lparr>d_title := dc_title document,
                                           d_thread_id := dc_thread_id document,
                                           d_content := dc_content document,
                                           d_type := dc_type document\<rparr>;
                  db_document' = (if set_fields = db_document then db_document
                                  else set_fields\<lparr>d_updated_at := now e\<rparr>)
              in (db\<lparr>documents := update_row d_id db_document' (documents db)\<rparr>,
                  Inr db_document'))))"

definition get_post :: "env \<Rightarrow> int \<Rightarrow> database \<Rightarrow> database \<times> (error + PostDB)" where
  "get_post e post_id db =
     (case first_by_id p_id post_id (posts db) of
        Inl err \<Rightarrow> (db, Inl err)
      | Inr None \<Rightarrow> (db, Inl (HTTPException 404 ''Post not found''))
      | Inr (Some post) \<Rightarrow>
          (if \<not> sqlite_int (p_view_count post + 1) then (db, Inl OverflowError)
           else
             (let post' = post\<lparr>p_view_count := p_view_count post + 1, p_seen := True,
                               p_last_viewed := Some (now e)\<rparr>
              in (db\<lparr>posts := update_row p_id post' (posts db)\<rparr>, Inr post'))))"

definition update_post ::
  "int \<Rightarrow> PostCreate \<Rightarrow> database \<Rightarrow> database \<times> (error + PostDB)" where
  "update_post post_id post_update db =
     (case first_by_id p_id post_id (posts db) of
        Inl err \<Rightarrow> (db, Inl err)
      | Inr None \<Rightarrow> (db, Inl (HTTPException 404 ''Post not found''))
      | Inr (Some post) \<Rightarrow>
          (let post' = post\<lparr>p_text := pc_text post_update, p_image := pc_image post_update,
                            p_edited := True\<rparr>
           in (db\<lparr>posts := update_row p_id post' (posts db)\<rparr>, Inr post')))"

definition delete_post :: "int \<Rightarrow> database \<Rightarrow> database \<times> (error + string)" where
  "delete_post post_id db =
     (case first_by_id p_id post_id (posts db) of
        Inl err \<Rightarrow> (db, Inl err)
      | Inr None \<Rightarrow> (db, Inl (HTTPException 404 ''Post not found''))
      | Inr (Some post) \<Rightarrow>
          (db\<lparr>posts := filter (\<lambda>p. p_id p \<noteq> p_id post) (posts db)\<rparr>, Inr ''Post deleted''))"

section \<open>Routes\<close>

text \<open>
  A route is a handler under its decorator. The framework validates the value the
  handler returns against the \<^verbatim>\<open>response_model\<close> the decorator declares, reading the
  model's fields as attributes of that value, and answers 500 when a required field is
  missing. Every route of \<^verbatim>\<open>server.py\<close> with a model other than \<^verbatim>\<open>Post\<close> declares the
  model of what its handler returns (\<^verbatim>\<open>List[Thread]\<close> for the list of threads,
  \<^verbatim>\<open>Dict[str, Document]\<close> for the mapping of documents, and so on), so for those the
  handler's result is the route's. Five routes declare \<^verbatim>\<open>response_model=Post\<close>; four
  return a row of \<open>posts\<close>, \<^verbatim>\<open>get_posts\<close> returns a list of rows. A row has every field
  of \<^verbatim>\<open>Post\<close>; a list, empty or not, has none.
\<close>

datatype returned = Row PostDB | Rows "PostDB list"

fun validate_Post :: "returned \<Rightarrow> error + PostDB" where
  "validate_Post (Row post) = Inr post"
| "validate_Post (Rows rows) = Inl ResponseValidationError"

definition respond ::
  "('a \<Rightarrow> returned) \<Rightarrow> database \<times> (error + 'a) \<Rightarrow> database \<times> (error + PostDB)" where
  "respond shape r =
     (case r of
        (db, Inl err) \<Rightarrow> (db, Inl err)
      | (db, Inr v) \<Rightarrow> (db, validate_Post (shape v)))"

definition route_create_post ::
  "env \<Rightarrow> int \<Rightarrow> string \<Rightarrow> UploadFile option \<Rightarrow> database \<Rightarrow> database \<times> (error + PostDB)" where
  "route_create_post e thread_id txt upload db = respond Row (create_post e thread_id txt upload db)"

definition route_create_post_json ::
  "env \<Rightarrow> int \<Rightarrow> PostCreate \<Rightarrow> database \<Rightarrow> database \<times> (error + PostDB)" where
  "route_create_post_json e thread_id post db = respond Row (create_post_json e thread_id post db)"

definition route_get_posts :: "int \<Rightarrow> database \<Rightarrow> database \<times> (error + PostDB)" where
  "route_get_posts thread_id db = respond Rows (get_posts thread_id db)"

definition route_get_post :: "env \<Rightarrow> int \<Rightarrow> database \<Rightarrow> database \<times> (error + PostDB)" where
  "route_get_post e post_id db = respond Row (get_post e post_id db)"

definition route_update_post ::
  "int \<Rightarrow> PostCreate \<Rightarrow> database \<Rightarrow> database \<times> (error + PostDB)" where
  "route_update_post post_id post_update db = respond Row (update_post post_id post_update db)"

text \<open>The requests of the API, and the store after the server has answered one.\<close>

datatype request =
    GET_threads
  | GET_thread int
  | POST_threads string string string "UploadFile option"
  | DELETE_thread int
  | POST_thread_posts int string "UploadFile option"
  | POST_system_thread_posts int PostCreate
  | GET_thread_posts int
  | GET_thread_documents int
  | POST_upload UploadFile
  | POST_documents DocumentCreate
  | GET_document string
  | DELETE_document string
  | PUT_document string DocumentCreate
  | GET_post int
  | PUT_post int PostCreate
  | DELETE_post int

fun step :: "env \<Rightarrow> request \<Rightarrow> database \<Rightarrow> database" where
  "step e GET_threads db = fst (get_threads db)"
| "step e (GET_thread thread_id) db = fst (get_thread e thread_id db)"
| "step e (POST_threads title creator initial_post upload) db =
     fst (create_thread e title creator initial_post upload db)"
| "step e (DELETE_thread thread_id) db = fst (delete_thread thread_id db)"
| "step e (POST_thread_posts thread_id txt upload) db =
     fst (route_create_post e thread_id txt upload db)"
| "step e (POST_system_thread_posts thread_id post) db =
     fst (route_create_post_json e thread_id post db)"
| "step e (GET_thread_posts thread_id) db = fst (route_get_posts thread_id db)"
| "step e (GET_thread_documents thread_id) db = fst (get_documents thread_id db)"
| "step e (POST_upload file) db = fst (upload_file e file db)"
| "step e (POST_documents document) db = fst (create_document e document db)"
| "step e (GET_document doc_id) db = fst (get_document e doc_id db)"
| "step e (DELETE_document doc_id) db = fst (delete_document doc_id db)"
| "step e (PUT_document doc_id document) db = fst (update_document e doc_id document db)"
| "step e (GET_post post_id) db = fst (route_get_post e post_id db)"
| "step e (PUT_post post_id post_update) db = fst (route_update_post post_id post_update db)"
| "step e (DELETE_post post_id) db = fst (delete_post post_id db)"

text \<open>A sequence of requests, each with the environment it runs in.\<close>

fun run :: "(env \<times> request) list \<Rightarrow> database \<Rightarrow> database" where
  "run [] db = db"
| "run ((e, r) # rs) db = run rs (step e r db)"

text \<open>
  The primary keys of the three tables are unique (the engine's constraint), and the
  two foreign keys point at rows of \<open>threads\<close> (what the schema declares).
\<close>

definition pk_unique :: "database \<Rightarrow> bool" where
  "pk_unique db \<longleftrightarrow>
     distinct (map t_id (threads db)) \<and> distinct (map p_id (posts db)) \<and>
     distinct (map d_id (documents db))"

definition posts_reference_threads :: "database \<Rightarrow> bool" where
  "posts_reference_threads db \<longleftrightarrow>
     list_all (\<lambda>p. p_thread_id p \<in> set (map t_id (threads db))) (posts db)"

definition documents_reference_threads :: "database \<Rightarrow> bool" where
  "documents_reference_threads db \<longleftrightarrow>
     list_all (\<lambda>d. d_thread_id d \<in> set (map t_id (threads db))) (documents db)"

section \<open>Example requests and stores\<close>

text \<open>
  Concrete inputs on which the theorems below are instantiated: the scenario of the
  specification (\<open>Hello\<close> by \<open>alice\<close>), and a store with two threads, three posts and
  two documents, one of them a grid of two rows and three columns.
\<close>

definition e0 :: env where
  "e0 = \<lparr>now = 100, uuid4 = ''0b5c''\<rparr>"

definition e1 :: env where
  "e1 = \<lparr>now = 130, uuid4 = ''7f3e''\<rparr>"

definition thread_hello :: ThreadDB where
  "thread_hello =
     \<lparr>t_id = 1, t_title = ''Hello'', t_created_at = 100, t_updated_at = 100,
      t_last_activity = 100, t_creator = ''alice'', t_view_count = 0, t_reply_count = 0\<rparr>"

definition post_hello :: PostDB where
  "post_hello =
     \<lparr>p_id = 1, p_author = ''alice'', p_thread_id = 1, p_text = ''First post'',
      p_time = 100, p_image = None, p_edited = False, p_seen = False, p_view_count = 0,
      p_last_viewed = None, p_is_initial_post = True\<rparr>"

definition db_hello :: database where
  "db_hello = \<lparr>threads = [thread_hello], posts = [post_hello], documents = []\<rparr>"

definition thread_a :: ThreadDB where
  "thread_a =
     \<lparr>t_id = 1, t_title = ''Release plan'', t_created_at = 10, t_updated_at = 40,
      t_last_activity = 40, t_creator = ''alice'', t_view_count = 3, t_reply_count = 1\<rparr>"

definition thread_b :: ThreadDB where
  "thread_b =
     \<lparr>t_id = 2, t_title = ''Bugs'', t_created_at = 20, t_updated_at = 20,
      t_last_activity = 20, t_creator = ''bob'', t_view_count = 0, t_reply_count = 0\<rparr>"

definition post_a1 :: PostDB where
  "post_a1 =
     \<lparr>p_id = 1, p_author = ''alice'', p_thread_id = 1, p_text = ''Draft'',
      p_time = 10, p_image = None, p_edited = False, p_seen = True, p_view_count = 2,
      p_last_viewed = Some 30, p_is_initial_post = True\<rparr>"

definition post_b1 :: PostDB where
  "post_b1 =
     \<lparr>p_id = 2, p_author = ''bob'', p_thread_id = 2, p_text = ''Crash on start'',
      p_time = 20, p_image = Some ''/uploads/c1.png'', p_edited = False, p_seen = False,
      p_view_count = 0, p_last_viewed = None, p_is_initial_post = True\<rparr>"

definition post_a2 :: PostDB where
  "post_a2 =
     \<lparr>p_id = 3, p_author = ''user'', p_thread_id = 1, p_text = ''Looks good'',
      p_time = 40, p_image = Some ''/uploads/a2.png'', p_edited = False, p_seen = False,
      p_view_count = 5, p_last_viewed = Some 45, p_is_initial_post = False\<rparr>"

definition doc_grid :: DocumentDB where
  "doc_grid =
     \<lparr>d_id = ''d-1'', d_thread_id = 1, d_title = ''Table'',
      d_content = Grid [[''a'', ''b'', ''c''], [''d'', ''e'', ''f'']], d_type = ''grid'',
      d_created_at = 15, d_updated_at = 15, d_last_viewed = None, d_view_count = 4\<rparr>"

definition doc_text :: DocumentDB where
  "doc_text =
     \<lparr>d_id = ''d-2'', d_thread_id = 2, d_title = ''Log'', d_content = Text ''trace'',
      d_type = ''text'', d_created_at = 25, d_updated_at = 25, d_last_viewed = None,
      d_view_count = 0\<rparr>"

definition forum :: database where
  "forum = \<lparr>threads = [thread_a, thread_b], posts = [post_a1, post_b1, post_a2],
             documents = [doc_grid, doc_text]\<rparr>"

definition reply_user :: PostDB where
  "reply_user =
     \<lparr>p_id = 4, p_author = ''user'', p_thread_id = 1, p_text = ''Ship it'',
      p_time = 130, p_image = None, p_edited = False, p_seen = False, p_view_count = 0,
      p_last_viewed = None, p_is_initial_post = False\<rparr>"

definition reply_system :: PostDB where
  "reply_system =
     \<lparr>p_id = 4, p_author = ''system'', p_thread_id = 1, p_text = ''Build passed'',
      p_time = 130, p_image = None, p_edited = False, p_seen = False, p_view_count = 0,
      p_last_viewed = None, p_is_initial_post = False\<rparr>"

definition thread_a_replied :: ThreadDB where
  "thread_a_replied =
     \<lparr>t_id = 1, t_title = ''Release plan'', t_created_at = 10, t_updated_at = 130,
      t_last_activity = 130, t_creator = ''alice'', t_view_count = 3, t_reply_count = 2\<rparr>"

definition doc_plan :: DocumentDB where
  "doc_plan =
     \<lparr>d_id = ''0b5c'', d_thread_id = 1, d_title = ''Plan'',
      d_content = Grid [[''q1'', ''q2'', ''q3''], [''x'', ''y'', ''z'']], d_type = ''grid'',
      d_created_at = 100, d_updated_at = 100, d_last_viewed = None, d_view_count = 0\<rparr>"

definition orphan :: DocumentDB where
  "orphan =
     \<lparr>d_id = ''0b5c'', d_thread_id = 7, d_title = ''Notes'', d_content = Text ''todo'',
      d_type = ''text'', d_created_at = 100, d_updated_at = 100, d_last_viewed = None,
      d_view_count = 0\<rparr>"

definition beyond :: int where
  "beyond = 9223372036854775808"

definition e_back :: env where
  "e_back = \<lparr>now = 5, uuid4 = ''2d1a''\<rparr>"

definition reply_back :: PostDB where
  "reply_back =
     \<lparr>p_id = 4, p_author = ''system'', p_thread_id = 1, p_text = ''Build passed'',
      p_time = 5, p_image = None, p_edited = False, p_seen = False, p_view_count = 0,
      p_last_viewed = None, p_is_initial_post = False\<rparr>"

definition thread_a_back :: ThreadDB where
  "thread_a_back =
     \<lparr>t_id = 1, t_title = ''Release plan'', t_created_at = 10, t_updated_at = 5,
      t_last_activity = 5, t_creator = ''alice'', t_view_count = 3, t_reply_count = 2\<rparr>"

lemmas example_defs =
  beyond_def e_back_def reply_back_def thread_a_back_def
  reply_user_def reply_system_def thread_a_replied_def
  e0_def e1_def thread_hello_def post_hello_def db_hello_def thread_a_def thread_b_def
  post_a1_def post_b1_def post_a2_def doc_grid_def doc_text_def forum_def empty_db_def

lemmas handler_defs =
  first_by_id_def save_image_def get_threads_def get_thread_def create_thread_def delete_thread_def
  insert_post_def create_post_def create_post_json_def get_posts_def get_documents_def
  upload_file_def create_document_def get_document_def delete_document_def
  update_document_def get_post_def update_post_def delete_post_def Let_def

lemmas route_defs =
  respond_def route_create_post_def route_create_post_json_def route_get_posts_def
  route_get_post_def route_update_post_def

section \<open>Facts about the storage operations\<close>

lemma next_id_fresh: "next_id ids \<notin> set ids"
proof
  assume mem: "next_id ids \<in> set ids"
  then have ne: "ids \<noteq> []" by auto
  from mem have "next_id ids \<le> Max (set ids)" by simp
  with ne show False by (simp add: next_id_def)
qed


lemma find_key_Some: "find (\<lambda>x. key x = k) rows = Some r \<Longrightarrow> r \<in> set rows \<and> key r = k"
  by (induction rows) (auto split: if_splits)

lemma find_update_row:
  "find (\<lambda>x. key x = k) (update_row key r rows) =
     (if key r = k then map_option (\<lambda>_. r) (find (\<lambda>x. key x = k) rows)
      else find (\<lambda>x. key x = k) rows)"
  by (induction rows) (auto simp: update_row_def)

lemma keys_update_row: "map key (update_row key r rows) = map key rows"
  by (induction rows) (auto simp: update_row_def)

lemma first_by_id_found:
  "find (\<lambda>r. key r = i) rows = Some r \<Longrightarrow> first_by_id key i rows = Inr (Some r)"
  by (simp add: first_by_id_def)



lemma beyond_overflows: "\<not> sqlite_int beyond"
  by (simp add: sqlite_int_def beyond_def)

lemma find_filter_other:
  "find (\<lambda>x. key x = k) (filter (\<lambda>x. key x \<noteq> j) rows) =
     (if k = j then None else find (\<lambda>x. key x = k) rows)"
  by (induction rows) auto

section \<open>Thread creation\<close>

text \<open>
  Claim C1. Every thread-creation request that succeeds inserts exactly one row into
  \<open>threads\<close> and exactly one row into \<open>posts\<close> in one transition of the store, and
  nothing into \<open>documents\<close>. The post has \<open>is_initial_post\<close> set, the new thread's id
  as its \<open>thread_id\<close>, \<open>initial_post\<close> as its text and the supplied creator as its
  author. The response is the created thread, with \<open>reply_count = 0\<close>. The thread's id
  is new; when no post of the store is an orphan, the new post is the only post of the
  new thread.
\<close>

theorem create_thread_inserts_thread_and_initial_post:
  assumes ok: "create_thread e title creator initial_post upload db = (db', Inr t)"
  shows "\<exists>p. threads db' = threads db @ [t] \<and> posts db' = posts db @ [p] \<and>
             documents db' = documents db \<and>
             t_id t \<notin> set (map t_id (threads db)) \<and>
             t_title t = title \<and> t_creator t = creator \<and> t_reply_count t = 0 \<and>
             p_is_initial_post p \<and> p_thread_id p = t_id t \<and> p_text p = initial_post \<and>
             p_author p = creator \<and>
             (posts_reference_threads db \<longrightarrow>
                filter (\<lambda>q. p_thread_id q = t_id t) (posts db') = [p])"
proof -
  from ok obtain image_path where img: "save_image e upload = Inr image_path"
    by (auto simp: create_thread_def split: sum.splits)
  let ?t = "\<lparr>t_id = next_id (map t_id (threads db)), t_title = title,
              t_created_at = now e, t_updated_at = now e, t_last_activity = now e,
              t_creator = creator, t_view_count = 0, t_reply_count = 0\<rparr>"
  let ?p = "\<lparr>p_id = next_id (map p_id (posts db)), p_author = creator,
              p_thread_id = next_id (map t_id (threads db)), p_text = initial_post,
              p_time = now e, p_image = image_path, p_edited = False, p_seen = False,
              p_view_count = 0, p_last_viewed = None, p_is_initial_post = True\<rparr>"
  from ok img have t: "t = ?t"
    and db': "db' = db\<lparr>threads := threads db @ [?t], posts := posts db @ [?p]\<rparr>"
    by (auto simp: create_thread_def Let_def)
  have fresh: "next_id (map t_id (threads db)) \<notin> set (map t_id (threads db))"
    by (rule next_id_fresh)
  have only: "filter (\<lambda>q. p_thread_id q = next_id (map t_id (threads db))) (posts db) = []"
    if "posts_reference_threads db"
    using that fresh unfolding posts_reference_threads_def list_all_iff filter_empty_conv
    by metis
  show ?thesis
    by (rule exI [of _ ?p]) (use fresh only in \<open>simp add: t db'\<close>)
qed

theorem create_thread_hello_witness:
  "create_thread e0 ''Hello'' ''alice'' ''First post'' None empty_db
     = (db_hello, Inr thread_hello) \<and>
   posts_reference_threads empty_db \<and>
   threads db_hello = threads empty_db @ [thread_hello] \<and>
   posts db_hello = posts empty_db @ [post_hello] \<and>
   t_reply_count thread_hello = 0 \<and>
   filter (\<lambda>q. p_thread_id q = t_id thread_hello) (posts db_hello) = [post_hello]"
proof -
  have created: "create_thread e0 ''Hello'' ''alice'' ''First post'' None empty_db
                   = (db_hello, Inr thread_hello)"
    by (simp add: handler_defs next_id_def example_defs)
  have inv: "posts_reference_threads empty_db"
    by (simp add: posts_reference_threads_def empty_db_def)
  from create_thread_inserts_thread_and_initial_post [OF created] inv created
  show ?thesis
    by (auto simp: example_defs)
qed

section \<open>Thread deletion\<close>





section \<open>Fetching one thread\<close>






section \<open>Post creation\<close>








section \<open>Updating a post\<close>

lemma route_update_post_found:
  assumes "find (\<lambda>p. p_id p = post_id) (posts db) = Some post"
  shows "route_update_post post_id post_update db =
           (db\<lparr>posts := update_row p_id
                  (post\<lparr>p_text := pc_text post_update, p_image := pc_image post_update,
                         p_edited := True\<rparr>) (posts db)\<rparr>,
            Inr (post\<lparr>p_text := pc_text post_update, p_image := pc_image post_update,
                       p_edited := True\<rparr>))"
  using assms
  by (simp add: route_update_post_def respond_def update_post_def first_by_id_found Let_def)

lemma route_update_post_stored:
  assumes "find (\<lambda>p. p_id p = post_id) (posts db) = Some post"
  shows "find (\<lambda>p. p_id p = k) (posts (fst (route_update_post post_id post_update db))) =
           (if k = post_id
            then Some (post\<lparr>p_text := pc_text post_update, p_image := pc_image post_update,
                             p_edited := True\<rparr>)
            else find (\<lambda>p. p_id p = k) (posts db))"
  using assms find_key_Some [OF assms]
  by (auto simp: route_update_post_found [OF assms] find_update_row)




text \<open>
  Claim C10. An update whose payload omits the image (\<open>pc_image = None\<close>) of a post id
  whose query finds the row \<open>post\<close> stores the row with image \<open>None\<close>, whatever image
  it had, and with \<open>id\<close>, \<open>thread_id\<close>, \<open>author\<close>, \<open>time\<close>, \<open>seen\<close>, \<open>view_count\<close>,
  \<open>last_viewed\<close> and \<open>is_initial_post\<close> as they were.
\<close>

theorem update_post_omitted_image_is_null:
  assumes found: "find (\<lambda>p. p_id p = post_id) (posts db) = Some post"
    and omitted: "pc_image post_update = None"
  shows "\<exists>db' post'. route_update_post post_id post_update db = (db', Inr post') \<and>
           find (\<lambda>p. p_id p = post_id) (posts db') = Some post' \<and>
           p_image post' = None \<and>
           p_id post' = p_id post \<and> p_thread_id post' = p_thread_id post \<and>
           p_author post' = p_author post \<and> p_time post' = p_time post \<and>
           p_seen post' = p_seen post \<and> p_view_count post' = p_view_count post \<and>
           p_last_viewed post' = p_last_viewed post \<and>
           p_is_initial_post post' = p_is_initial_post post"
proof -
  let ?post' = "post\<lparr>p_text := pc_text post_update, p_image := pc_image post_update,
                      p_edited := True\<rparr>"
  let ?db' = "db\<lparr>posts := update_row p_id ?post' (posts db)\<rparr>"
  have upd: "route_update_post post_id post_update db = (?db', Inr ?post')"
    by (rule route_update_post_found [OF found])
  have stored: "find (\<lambda>p. p_id p = post_id) (posts ?db') = Some ?post'"
    using route_update_post_stored [OF found, of post_id post_update] by (simp add: upd)
  show ?thesis
    by (rule exI [of _ ?db'], rule exI [of _ ?post']) (use upd stored omitted in simp)
qed

theorem update_post_omitted_image_witness:
  "find (\<lambda>p. p_id p = 3) (posts forum) = Some post_a2 \<and>
   pc_image \<lparr>pc_text = ''Reworded'', pc_image = None\<rparr> = None \<and>
   p_image post_a2 = Some ''/uploads/a2.png'' \<and>
   route_update_post 3 \<lparr>pc_text = ''Reworded'', pc_image = None\<rparr> forum
     = (forum\<lparr>posts := [post_a1, post_b1,
                           post_a2\<lparr>p_text := ''Reworded'', p_image := None, p_edited := True\<rparr>]\<rparr>,
        Inr (post_a2\<lparr>p_text := ''Reworded'', p_image := None, p_edited := True\<rparr>)) \<and>
   p_view_count (post_a2\<lparr>p_text := ''Reworded'', p_image := None, p_edited := True\<rparr>) = 5"
proof -
  let ?u = "\<lparr>pc_text = ''Reworded'', pc_image = None\<rparr>"
  let ?new = "post_a2\<lparr>p_text := ''Reworded'', p_image := None, p_edited := True\<rparr>"
  have found: "find (\<lambda>p. p_id p = 3) (posts forum) = Some post_a2"
    and old: "p_image post_a2 = Some ''/uploads/a2.png''"
    and count: "p_view_count post_a2 = 5"
    by (simp_all add: example_defs)
  have omitted: "pc_image ?u = None"
    by simp
  have run: "route_update_post 3 ?u forum
     = (forum\<lparr>posts := [post_a1, post_b1, ?new]\<rparr>, Inr ?new)"
    by (simp add: route_defs handler_defs update_row_def example_defs)
  from update_post_omitted_image_is_null [OF found omitted]
  obtain db' post' where upd: "route_update_post 3 ?u forum = (db', Inr post')"
    and kept: "p_view_count post' = p_view_count post_a2"
    by blast
  from upd run have "post' = ?new"
    by simp
  with kept count have "p_view_count ?new = 5"
    by simp
  with found omitted old run show ?thesis
    by (intro conjI)
qed

section \<open>Documents\<close>

lemma find_appended_fresh:
  assumes "k \<notin> key ` set rows" and "key r = k"
  shows "find (\<lambda>x. key x = k) (rows @ [r]) = Some r"
  using assms by (induction rows) auto

lemma create_document_success:
  assumes "create_document e document db = (db', Inr created)"
  shows "uuid4 e \<notin> d_id ` set (documents db)"
    and "created = \<lparr>d_id = uuid4 e, d_thread_id = dc_thread_id document,
                     d_title = dc_title document, d_content = dc_content document,
                     d_type = dc_type document, d_created_at = now e, d_updated_at = now e,
                     d_last_viewed = None, d_view_count = 0\<rparr>"
    and "db' = db\<lparr>documents := documents db @ [created]\<rparr>"
  using assms by (auto simp: create_document_def Let_def split: if_splits)

text \<open>
  Claim C8. When a document creation succeeds, fetching the document by the id the
  creation returned succeeds and returns the content the creation was given: a grid
  of strings comes back as the same grid, row by row and cell by cell (and a plain
  string as the same string). The fetched document has the title, type and thread id
  of the payload and has been viewed once.
\<close>

theorem document_content_round_trip:
  assumes created: "create_document e document db = (db', Inr created)"
  shows "\<exists>db'' fetched. get_document e' (d_id created) db' = (db'', Inr fetched) \<and>
           d_content fetched = dc_content document \<and>
           (\<forall>grid. dc_content document = Grid grid \<longrightarrow> d_content fetched = Grid grid) \<and>
           d_id fetched = d_id created \<and> d_title fetched = dc_title document \<and>
           d_type fetched = dc_type document \<and> d_thread_id fetched = dc_thread_id document \<and>
           d_view_count fetched = 1"
proof -
  note c = create_document_success [OF created]
  have key: "d_id created = uuid4 e"
    by (simp add: c(2))
  have "find (\<lambda>d. d_id d = uuid4 e) (documents db @ [created]) = Some created"
    using c(1) key by (rule find_appended_fresh)
  then have found: "find (\<lambda>d. d_id d = d_id created) (documents db') = Some created"
    by (simp add: c(3) key)
  let ?fetched = "created\<lparr>d_view_count := d_view_count created + 1,
                          d_last_viewed := Some (now e'), d_updated_at := now e'\<rparr>"
  have "get_document e' (d_id created) db' =
          (db'\<lparr>documents := update_row d_id ?fetched (documents db')\<rparr>, Inr ?fetched)"
    using found by (simp add: get_document_def sqlite_int_def c(2) Let_def)
  moreover have "d_content ?fetched = dc_content document" "d_view_count ?fetched = 1"
    "d_title ?fetched = dc_title document" "d_type ?fetched = dc_type document"
    "d_thread_id ?fetched = dc_thread_id document" "d_id ?fetched = d_id created"
    by (simp_all add: c(2))
  ultimately show ?thesis
    by (intro exI [of _ "db'\<lparr>documents := update_row d_id ?fetched (documents db')\<rparr>"]
          exI [of _ ?fetched]) simp
qed

theorem document_grid_round_trip_witness:
  "create_document e0
     \<lparr>dc_title = ''Plan'', dc_thread_id = 1,
      dc_content = Grid [[''q1'', ''q2'', ''q3''], [''x'', ''y'', ''z'']], dc_type = ''grid''\<rparr> forum
     = (forum\<lparr>documents := documents forum @ [doc_plan]\<rparr>, Inr doc_plan) \<and>
   get_document e1 (d_id doc_plan) (forum\<lparr>documents := documents forum @ [doc_plan]\<rparr>)
     = (forum\<lparr>documents := documents forum @
          [doc_plan\<lparr>d_view_count := 1, d_last_viewed := Some 130, d_updated_at := 130\<rparr>]\<rparr>,
        Inr (doc_plan\<lparr>d_view_count := 1, d_last_viewed := Some 130, d_updated_at := 130\<rparr>)) \<and>
   d_content (doc_plan\<lparr>d_view_count := 1, d_last_viewed := Some 130, d_updated_at := 130\<rparr>)
     = Grid [[''q1'', ''q2'', ''q3''], [''x'', ''y'', ''z'']]"
proof -
  let ?payload = "\<lparr>dc_title = ''Plan'', dc_thread_id = 1,
      dc_content = Grid [[''q1'', ''q2'', ''q3''], [''x'', ''y'', ''z'']], dc_type = ''grid''\<rparr>"
  let ?db' = "forum\<lparr>documents := documents forum @ [doc_plan]\<rparr>"
  let ?fetched = "doc_plan\<lparr>d_view_count := 1, d_last_viewed := Some 130, d_updated_at := 130\<rparr>"
  have made: "create_document e0 ?payload forum = (?db', Inr doc_plan)"
    by (simp add: handler_defs sqlite_int_def doc_plan_def example_defs)
  have got: "get_document e1 (d_id doc_plan) ?db'
     = (forum\<lparr>documents := documents forum @ [?fetched]\<rparr>, Inr ?fetched)"
    by (simp add: handler_defs sqlite_int_def update_row_def doc_plan_def example_defs)
  from document_content_round_trip [OF made, of e1]
  obtain db'' fetched where again: "get_document e1 (d_id doc_plan) ?db' = (db'', Inr fetched)"
    and same: "d_content fetched = dc_content ?payload"
    by blast
  from again got have "fetched = ?fetched"
    by simp
  with same have "d_content ?fetched = Grid [[''q1'', ''q2'', ''q3''], [''x'', ''y'', ''z'']]"
    by simp
  with made got show ?thesis
    by (intro conjI)
qed

section \<open>Counters\<close>

lemma find_appended:
  "find P (rows @ [r]) = (case find P rows of None \<Rightarrow> (if P r then Some r else None) | Some x \<Rightarrow> Some x)"
  by (induction rows) auto

lemma find_key_eq: "find (\<lambda>x. key x = k) rows = Some r \<Longrightarrow> key r = k"
  using find_key_Some by fastforce

lemma find_filter_unique:
  assumes "distinct (map key rows)"
    and "find (\<lambda>x. key x = k) rows = Some r"
    and "find (\<lambda>x. key x = k) (filter P rows) = Some r'"
  shows "r' = r"
proof -
  from assms(2) have r: "r \<in> set rows" "key r = k"
    using find_key_Some by fastforce+
  from assms(3) have r': "r' \<in> set rows" "key r' = k"
    using find_key_Some [of key k "filter P rows" r'] by auto
  from assms(1) have "inj_on key (set rows)"
    by (simp add: distinct_map)
  with r r' show ?thesis
    by (auto dest: inj_onD)
qed

lemma updated_counter:
  fixes c :: "'r \<Rightarrow> int"
  assumes found: "find (\<lambda>x. key x = i) rows = Some r0"
    and same_key: "key r1 = key r0"
    and grows: "c r0 \<le> c r1"
    and before: "find (\<lambda>x. key x = k) rows = Some r"
    and after: "find (\<lambda>x. key x = k) (update_row key r1 rows) = Some r'"
  shows "c r \<le> c r'"
proof (cases "k = i")
  case True
  with found before have "r = r0" by simp
  moreover from after True found same_key find_key_eq [OF found] have "r' = r1"
    by (simp add: find_update_row)
  ultimately show ?thesis using grows by simp
next
  case False
  with after before same_key find_key_eq [OF found] have "r' = r"
    by (simp add: find_update_row)
  then show ?thesis by simp
qed

lemma step_thread_counters:
  assumes before: "find (\<lambda>t. t_id t = k) (threads db) = Some t"
    and after: "find (\<lambda>t. t_id t = k) (threads (step e r db)) = Some t'"
  shows "t_view_count t \<le> t_view_count t' \<and> t_reply_count t \<le> t_reply_count t'"
proof (cases r)
  case (GET_thread i)
  show ?thesis
  proof (cases "find (\<lambda>t. t_id t = i) (threads db)")
    case None
    with before after GET_thread show ?thesis
      by (auto simp: get_thread_def first_by_id_def split: if_splits)
  next
    case (Some x)
    let ?x' = "x\<lparr>t_view_count := t_view_count x + 1, t_updated_at := now e\<rparr>"
    show ?thesis
    proof (cases "sqlite_int (t_view_count x + 1)")
      case False
      with before after GET_thread Some show ?thesis
        by (simp add: get_thread_def first_by_id_def)
    next
      case True
      with after GET_thread Some
      have a: "find (\<lambda>t. t_id t = k) (update_row t_id ?x' (threads db)) = Some t'"
        by (simp add: get_thread_def first_by_id_def Let_def)
      show ?thesis
        using updated_counter [OF Some _ _ before a, of t_view_count]
          updated_counter [OF Some _ _ before a, of t_reply_count]
        by simp
    qed
  qed
next
  case (POST_thread_posts i body upload)
  show ?thesis
  proof (cases "find (\<lambda>t. t_id t = i) (threads db)")
    case None
    with before after POST_thread_posts show ?thesis
      by (auto simp: route_defs create_post_def first_by_id_def split: if_splits)
  next
    case (Some x)
    let ?x' = "x\<lparr>t_reply_count := t_reply_count x + 1, t_last_activity := now e,
                   t_updated_at := now e\<rparr>"
    show ?thesis
    proof (cases "save_image e upload")
      case (Inl err)
      with before after POST_thread_posts Some show ?thesis
        by (simp add: route_defs create_post_def first_by_id_def)
    next
      case (Inr image_path)
      show ?thesis
      proof (cases "sqlite_int (t_reply_count x + 1)")
        case False
        with before after POST_thread_posts Some Inr show ?thesis
          by (simp add: route_defs create_post_def insert_post_def first_by_id_def)
      next
        case True
        with after POST_thread_posts Some Inr
        have a: "find (\<lambda>t. t_id t = k) (update_row t_id ?x' (threads db)) = Some t'"
          by (simp add: route_defs create_post_def insert_post_def first_by_id_def Let_def)
        show ?thesis
          using updated_counter [OF Some _ _ before a, of t_view_count]
            updated_counter [OF Some _ _ before a, of t_reply_count]
          by simp
      qed
    qed
  qed
next
  case (POST_system_thread_posts i post)
  show ?thesis
  proof (cases "find (\<lambda>t. t_id t = i) (threads db)")
    case None
    with before after POST_system_thread_posts show ?thesis
      by (auto simp: route_defs create_post_json_def first_by_id_def split: if_splits)
  next
    case (Some x)
    let ?x' = "x\<lparr>t_reply_count := t_reply_count x + 1, t_last_activity := now e,
                   t_updated_at := now e\<rparr>"
    show ?thesis
    proof (cases "sqlite_int (t_reply_count x + 1)")
      case False
      with before after POST_system_thread_posts Some show ?thesis
        by (simp add: route_defs create_post_json_def insert_post_def first_by_id_def)
    next
      case True
      with after POST_system_thread_posts Some
      have a: "find (\<lambda>t. t_id t = k) (update_row t_id ?x' (threads db)) = Some t'"
        by (simp add: route_defs create_post_json_def insert_post_def first_by_id_def Let_def)
      show ?thesis
        using updated_counter [OF Some _ _ before a, of t_view_count]
          updated_counter [OF Some _ _ before a, of t_reply_count]
        by simp
    qed
  qed
qed (use before after in \<open>auto simp: handler_defs route_defs find_filter_other find_appended
       split: option.splits sum.splits if_splits prod.splits\<close>)

lemma step_post_counters:
  assumes unique: "pk_unique db"
    and before: "find (\<lambda>p. p_id p = k) (posts db) = Some p"
    and after: "find (\<lambda>p. p_id p = k) (posts (step e r db)) = Some p'"
  shows "p_view_count p \<le> p_view_count p'"
proof (cases r)
  case (DELETE_thread i)
  show ?thesis
  proof (cases "find (\<lambda>t. t_id t = i) (threads db)")
    case None
    with before after DELETE_thread show ?thesis
      by (auto simp: delete_thread_def first_by_id_def split: if_splits)
  next
    case (Some thread)
    with after DELETE_thread
    have "find (\<lambda>p. p_id p = k) (filter (\<lambda>p. p_thread_id p \<noteq> t_id thread) (posts db)) = Some p'"
      by (simp add: delete_thread_def first_by_id_def)
    with unique before have "p' = p"
      using find_filter_unique [of p_id "posts db" k p] by (simp add: pk_unique_def)
    then show ?thesis by simp
  qed
next
  case (GET_post i)
  show ?thesis
  proof (cases "find (\<lambda>p. p_id p = i) (posts db)")
    case None
    with before after GET_post show ?thesis
      by (auto simp: route_defs get_post_def first_by_id_def split: if_splits)
  next
    case (Some x)
    let ?x' = "x\<lparr>p_view_count := p_view_count x + 1, p_seen := True,
                   p_last_viewed := Some (now e)\<rparr>"
    show ?thesis
    proof (cases "sqlite_int (p_view_count x + 1)")
      case False
      with before after GET_post Some show ?thesis
        by (simp add: route_defs get_post_def first_by_id_def)
    next
      case True
      with after GET_post Some
      have a: "find (\<lambda>p. p_id p = k) (update_row p_id ?x' (posts db)) = Some p'"
        by (simp add: route_defs get_post_def first_by_id_def Let_def)
      show ?thesis
        using updated_counter [OF Some _ _ before a, of p_view_count] by simp
    qed
  qed
next
  case (PUT_post i post_update)
  show ?thesis
  proof (cases "find (\<lambda>p. p_id p = i) (posts db)")
    case None
    with before after PUT_post show ?thesis
      by (auto simp: route_defs update_post_def first_by_id_def split: if_splits)
  next
    case (Some x)
    let ?x' = "x\<lparr>p_text := pc_text post_update, p_image := pc_image post_update,
                   p_edited := True\<rparr>"
    from after PUT_post Some
    have a: "find (\<lambda>p. p_id p = k) (update_row p_id ?x' (posts db)) = Some p'"
      by (simp add: route_defs update_post_def first_by_id_def Let_def)
    show ?thesis
      using updated_counter [OF Some _ _ before a, of p_view_count] by simp
  qed
qed (use before after in \<open>auto simp: handler_defs route_defs find_filter_other find_appended
       split: option.splits sum.splits if_splits prod.splits\<close>)

lemma step_document_counters:
  assumes unique: "pk_unique db"
    and before: "find (\<lambda>d. d_id d = k) (documents db) = Some d"
    and after: "find (\<lambda>d. d_id d = k) (documents (step e r db)) = Some d'"
  shows "d_view_count d \<le> d_view_count d'"
proof (cases r)
  case (DELETE_thread i)
  show ?thesis
  proof (cases "find (\<lambda>t. t_id t = i) (threads db)")
    case None
    with before after DELETE_thread show ?thesis
      by (auto simp: delete_thread_def first_by_id_def split: if_splits)
  next
    case (Some thread)
    with after DELETE_thread
    have "find (\<lambda>d. d_id d = k) (filter (\<lambda>d. d_thread_id d \<noteq> t_id thread) (documents db)) = Some d'"
      by (simp add: delete_thread_def first_by_id_def)
    with unique before have "d' = d"
      using find_filter_unique [of d_id "documents db" k d] by (simp add: pk_unique_def)
    then show ?thesis by simp
  qed
next
  case (GET_document i)
  show ?thesis
  proof (cases "find (\<lambda>d. d_id d = i) (documents db)")
    case None
    with before after GET_document show ?thesis
      by (auto simp: get_document_def first_by_id_def split: if_splits)
  next
    case (Some x)
    let ?x' = "x\<lparr>d_view_count := d_view_count x + 1, d_last_viewed := Some (now e),
                   d_updated_at := now e\<rparr>"
    show ?thesis
    proof (cases "sqlite_int (d_view_count x + 1)")
      case False
      with before after GET_document Some show ?thesis
        by (simp add: get_document_def)
    next
      case True
      with after GET_document Some
      have a: "find (\<lambda>d. d_id d = k) (update_row d_id ?x' (documents db)) = Some d'"
        by (simp add: get_document_def Let_def)
      show ?thesis
        using updated_counter [OF Some _ _ before a, of d_view_count] by simp
    qed
  qed
next
  case (PUT_document i document)
  show ?thesis
  proof (cases "find (\<lambda>d. d_id d = i) (documents db)")
    case None
    with before after PUT_document show ?thesis
      by (auto simp: update_document_def first_by_id_def split: if_splits)
  next
    case (Some x)
    let ?set = "x\<lparr>d_title := dc_title document, d_thread_id := dc_thread_id document,
                    d_content := dc_content document, d_type := dc_type document\<rparr>"
    let ?x' = "if ?set = x then x else ?set\<lparr>d_updated_at := now e\<rparr>"
    show ?thesis
    proof (cases "dc_thread_id document \<noteq> d_thread_id x \<and> \<not> sqlite_int (dc_thread_id document)")
      case True
      with before after PUT_document Some show ?thesis
        by (simp add: update_document_def)
    next
      case False
      with after PUT_document Some
      have a: "find (\<lambda>d. d_id d = k) (update_row d_id ?x' (documents db)) = Some d'"
        by (simp add: update_document_def Let_def)
      have "d_id ?x' = d_id x" and "d_view_count x \<le> d_view_count ?x'"
        by simp_all
      from updated_counter [OF Some this before a] show ?thesis .
    qed
  qed
qed (use before after in \<open>auto simp: handler_defs route_defs find_filter_other find_appended
       split: option.splits sum.splits if_splits prod.splits\<close>)

lemma replaced_counter:
  fixes c :: "'r \<Rightarrow> int"
  assumes found: "find (\<lambda>x. key x = i) rows = Some r0"
    and same_key: "key r1 = key r0"
    and kept: "c r1 = c r0"
    and before: "find (\<lambda>x. key x = k) rows = Some r"
    and after: "find (\<lambda>x. key x = k) (update_row key r1 rows) = Some r'"
  shows "c r' = c r"
proof (cases "k = i")
  case True
  with found before have "r = r0" by simp
  moreover from after True found same_key find_key_eq [OF found] have "r' = r1"
    by (simp add: find_update_row)
  ultimately show ?thesis using kept by simp
next
  case False
  with after before same_key find_key_eq [OF found] have "r' = r"
    by (simp add: find_update_row)
  then show ?thesis by simp
qed

lemma put_post_keeps_view_count:
  assumes before: "find (\<lambda>p. p_id p = k) (posts db) = Some p"
    and after: "find (\<lambda>p. p_id p = k) (posts (step e (PUT_post i post_update) db)) = Some p'"
  shows "p_view_count p' = p_view_count p"
proof (cases "find (\<lambda>p. p_id p = i) (posts db)")
  case None
  with before after show ?thesis
      by (auto simp: route_defs update_post_def first_by_id_def split: if_splits)
next
  case (Some x)
  let ?x' = "x\<lparr>p_text := pc_text post_update, p_image := pc_image post_update,
                 p_edited := True\<rparr>"
  from after Some
  have a: "find (\<lambda>p. p_id p = k) (update_row p_id ?x' (posts db)) = Some p'"
    by (simp add: route_defs update_post_def first_by_id_def Let_def)
  show ?thesis
    using replaced_counter [OF Some _ _ before a, of p_view_count] by simp
qed

lemma put_document_keeps_view_count:
  assumes before: "find (\<lambda>d. d_id d = k) (documents db) = Some d"
    and after: "find (\<lambda>d. d_id d = k) (documents (step e (PUT_document i document) db)) = Some d'"
  shows "d_view_count d' = d_view_count d"
proof (cases "find (\<lambda>d. d_id d = i) (documents db)")
  case None
  with before after show ?thesis
      by (auto simp: update_document_def first_by_id_def split: if_splits)
next
  case (Some x)
  let ?set = "x\<lparr>d_title := dc_title document, d_thread_id := dc_thread_id document,
                  d_content := dc_content document, d_type := dc_type document\<rparr>"
  let ?x' = "if ?set = x then x else ?set\<lparr>d_updated_at := now e\<rparr>"
  show ?thesis
  proof (cases "dc_thread_id document \<noteq> d_thread_id x \<and> \<not> sqlite_int (dc_thread_id document)")
    case True
    with before after Some show ?thesis
      by (simp add: update_document_def)
  next
    case False
    with after Some
    have a: "find (\<lambda>d. d_id d = k) (update_row d_id ?x' (documents db)) = Some d'"
      by (simp add: update_document_def Let_def)
    have "d_id ?x' = d_id x" and "d_view_count ?x' = d_view_count x"
      by simp_all
    from replaced_counter [OF Some this before a] show ?thesis .
  qed
qed

text \<open>
  Claim C9. In a store whose primary keys are unique, no request lowers a counter of a
  row that is there before and after it: for every request and every id, the thread
  found under the id afterwards has \<open>view_count\<close> and \<open>reply_count\<close> at least those of
  the thread found under it before, and likewise the \<open>view_count\<close> of a post and of a
  document. The full-replace updates of a post and of a document leave the
  \<open>view_count\<close> of every post and document as it was.
\<close>

theorem counters_never_decrease:
  assumes unique: "pk_unique db"
  shows "(\<forall>k t t'. find (\<lambda>t. t_id t = k) (threads db) = Some t \<and>
            find (\<lambda>t. t_id t = k) (threads (step e r db)) = Some t' \<longrightarrow>
            t_view_count t \<le> t_view_count t' \<and> t_reply_count t \<le> t_reply_count t') \<and>
         (\<forall>k p p'. find (\<lambda>p. p_id p = k) (posts db) = Some p \<and>
            find (\<lambda>p. p_id p = k) (posts (step e r db)) = Some p' \<longrightarrow>
            p_view_count p \<le> p_view_count p') \<and>
         (\<forall>k d d'. find (\<lambda>d. d_id d = k) (documents db) = Some d \<and>
            find (\<lambda>d. d_id d = k) (documents (step e r db)) = Some d' \<longrightarrow>
            d_view_count d \<le> d_view_count d') \<and>
         (\<forall>i post_update k p p'. find (\<lambda>p. p_id p = k) (posts db) = Some p \<and>
            find (\<lambda>p. p_id p = k) (posts (step e (PUT_post i post_update) db)) = Some p' \<longrightarrow>
            p_view_count p' = p_view_count p) \<and>
         (\<forall>i document k d d'. find (\<lambda>d. d_id d = k) (documents db) = Some d \<and>
            find (\<lambda>d. d_id d = k) (documents (step e (PUT_document i document) db)) = Some d' \<longrightarrow>
            d_view_count d' = d_view_count d)"
proof (intro conjI allI impI)
  fix k t t'
  assume "find (\<lambda>t. t_id t = k) (threads db) = Some t \<and>
          find (\<lambda>t. t_id t = k) (threads (step e r db)) = Some t'"
  then have "t_view_count t \<le> t_view_count t' \<and> t_reply_count t \<le> t_reply_count t'"
    using step_thread_counters by blast
  then show "t_view_count t \<le> t_view_count t'" and "t_reply_count t \<le> t_reply_count t'"
    by simp_all
next
  fix k p p'
  assume "find (\<lambda>p. p_id p = k) (posts db) = Some p \<and>
          find (\<lambda>p. p_id p = k) (posts (step e r db)) = Some p'"
  then show "p_view_count p \<le> p_view_count p'"
    using step_post_counters [OF unique] by blast
next
  fix k d d'
  assume "find (\<lambda>d. d_id d = k) (documents db) = Some d \<and>
          find (\<lambda>d. d_id d = k) (documents (step e r db)) = Some d'"
  then show "d_view_count d \<le> d_view_count d'"
    using step_document_counters [OF unique] by blast
next
  fix i post_update k p p'
  assume "find (\<lambda>p. p_id p = k) (posts db) = Some p \<and>
          find (\<lambda>p. p_id p = k) (posts (step e (PUT_post i post_update) db)) = Some p'"
  then show "p_view_count p' = p_view_count p"
    using put_post_keeps_view_count by blast
next
  fix i document k d d'
  assume "find (\<lambda>d. d_id d = k) (documents db) = Some d \<and>
          find (\<lambda>d. d_id d = k) (documents (step e (PUT_document i document) db)) = Some d'"
  then show "d_view_count d' = d_view_count d"
    using put_document_keeps_view_count by blast
qed

theorem counters_forum_witness:
  "pk_unique forum \<and>
   find (\<lambda>t. t_id t = 1) (threads forum) = Some thread_a \<and>
   find (\<lambda>t. t_id t = 1) (threads (step e0 (GET_thread 1) forum))
     = Some (thread_a\<lparr>t_view_count := 4, t_updated_at := 100\<rparr>) \<and>
   t_view_count thread_a \<le> t_view_count (thread_a\<lparr>t_view_count := 4, t_updated_at := 100\<rparr>) \<and>
   find (\<lambda>p. p_id p = 3) (posts forum) = Some post_a2 \<and>
   find (\<lambda>p. p_id p = 3)
        (posts (step e0 (PUT_post 3 \<lparr>pc_text = ''Reworded'', pc_image = None\<rparr>) forum))
     = Some (post_a2\<lparr>p_text := ''Reworded'', p_image := None, p_edited := True\<rparr>) \<and>
   p_view_count (post_a2\<lparr>p_text := ''Reworded'', p_image := None, p_edited := True\<rparr>)
     = p_view_count post_a2"
proof -
  let ?viewed = "thread_a\<lparr>t_view_count := 4, t_updated_at := 100\<rparr>"
  let ?u = "\<lparr>pc_text = ''Reworded'', pc_image = None\<rparr>"
  let ?edited = "post_a2\<lparr>p_text := ''Reworded'', p_image := None, p_edited := True\<rparr>"
  have unique: "pk_unique forum"
    by (simp add: pk_unique_def example_defs)
  have t0: "find (\<lambda>t. t_id t = 1) (threads forum) = Some thread_a"
    and p0: "find (\<lambda>p. p_id p = 3) (posts forum) = Some post_a2"
    by (simp_all add: example_defs)
  have t1: "find (\<lambda>t. t_id t = 1) (threads (step e0 (GET_thread 1) forum)) = Some ?viewed"
    by (simp add: handler_defs sqlite_int_def update_row_def example_defs)
  have p1: "find (\<lambda>p. p_id p = 3) (posts (step e0 (PUT_post 3 ?u) forum)) = Some ?edited"
    by (simp add: route_defs handler_defs update_row_def example_defs)
  note all = counters_never_decrease [OF unique, of e0 "GET_thread 1"]
  from all t0 t1 have grown: "t_view_count thread_a \<le> t_view_count ?viewed"
    by blast
  from all p0 p1 have kept: "p_view_count ?edited = p_view_count post_a2"
    by blast
  from unique t0 t1 grown p0 p1 kept show ?thesis
    by (intro conjI)
qed

section \<open>Referential integrity\<close>

lemma distinct_keys_filter: "distinct (map key rows) \<Longrightarrow> distinct (map key (filter P rows))"
  by (simp add: distinct_map_filter)

lemma step_keeps_pk_unique:
  assumes "pk_unique db"
  shows "pk_unique (step e r db)"
  using assms next_id_fresh [of "map t_id (threads db)"] next_id_fresh [of "map p_id (posts db)"]
  by (cases r)
     (auto simp: pk_unique_def handler_defs route_defs keys_update_row distinct_keys_filter
           split: option.splits sum.splits if_splits prod.splits)

lemma step_keeps_posts_reference_threads:
  assumes "posts_reference_threads db"
  shows "posts_reference_threads (step e r db)"
proof (cases r)
  case (GET_post i)
  show ?thesis
  proof (cases "find (\<lambda>p. p_id p = i) (posts db)")
    case None
    with assms GET_post show ?thesis
      by (auto simp: route_defs get_post_def first_by_id_def split: if_splits)
  next
    case (Some x)
    then have "x \<in> set (posts db)" using find_key_Some by fastforce
    with assms GET_post Some show ?thesis
      by (auto simp: posts_reference_threads_def list_all_iff route_defs get_post_def
            first_by_id_def update_row_def Let_def split: if_splits)
  qed
next
  case (PUT_post i post_update)
  show ?thesis
  proof (cases "find (\<lambda>p. p_id p = i) (posts db)")
    case None
    with assms PUT_post show ?thesis
      by (auto simp: route_defs update_post_def first_by_id_def split: if_splits)
  next
    case (Some x)
    then have "x \<in> set (posts db)" using find_key_Some by fastforce
    with assms PUT_post Some show ?thesis
      by (auto simp: posts_reference_threads_def list_all_iff route_defs update_post_def
            first_by_id_def update_row_def Let_def split: if_splits)
  qed
next
  case (POST_thread_posts i body upload)
  show ?thesis
  proof (cases "find (\<lambda>t. t_id t = i) (threads db)")
    case None
    with assms POST_thread_posts show ?thesis
      by (auto simp: route_defs create_post_def first_by_id_def split: if_splits)
  next
    case (Some x)
    then have "x \<in> set (threads db)" using find_key_Some by fastforce
    then have "t_id x \<in> set (map t_id (threads db))" by simp
    with assms POST_thread_posts Some show ?thesis
      by (cases "save_image e upload")
         (auto simp: posts_reference_threads_def list_all_iff route_defs create_post_def
            insert_post_def first_by_id_def keys_update_row Let_def split: if_splits
            simp flip: set_map)
  qed
next
  case (POST_system_thread_posts i post)
  show ?thesis
  proof (cases "find (\<lambda>t. t_id t = i) (threads db)")
    case None
    with assms POST_system_thread_posts show ?thesis
      by (auto simp: route_defs create_post_json_def first_by_id_def split: if_splits)
  next
    case (Some x)
    then have "x \<in> set (threads db)" using find_key_Some by fastforce
    then have "t_id x \<in> set (map t_id (threads db))" by simp
    with assms POST_system_thread_posts Some show ?thesis
      by (auto simp: posts_reference_threads_def list_all_iff route_defs create_post_json_def
            insert_post_def first_by_id_def keys_update_row Let_def split: if_splits
            simp flip: set_map)
  qed
next
  case (GET_thread i)
  with assms show ?thesis
    by (auto simp: posts_reference_threads_def list_all_iff get_thread_def first_by_id_def
          keys_update_row Let_def split: option.splits if_splits simp flip: set_map)
next
  case (DELETE_thread i)
  show ?thesis
  proof (cases "find (\<lambda>t. t_id t = i) (threads db)")
    case None
    with assms DELETE_thread show ?thesis
      by (auto simp: delete_thread_def first_by_id_def split: if_splits)
  next
    case (Some x)
    with assms DELETE_thread show ?thesis
      by (auto simp: posts_reference_threads_def list_all_iff delete_thread_def first_by_id_def)
  qed
qed (use assms in \<open>auto simp: posts_reference_threads_def list_all_iff handler_defs route_defs
       split: option.splits sum.splits if_splits prod.splits\<close>)

lemma run_keeps_invariants:
  assumes "pk_unique db" and "posts_reference_threads db"
  shows "pk_unique (run rs db) \<and> posts_reference_threads (run rs db)"
  using assms
proof (induction rs arbitrary: db)
  case Nil
  then show ?case by simp
next
  case (Cons a rs)
  obtain e r where a: "a = (e, r)" by (cases a)
  from Cons.prems have "pk_unique (step e r db)" and "posts_reference_threads (step e r db)"
    by (simp_all add: step_keeps_pk_unique step_keeps_posts_reference_threads)
  then show ?case
    using Cons.IH [of "step e r db"] by (simp add: a)
qed

text \<open>
  What the handlers do keep, from the empty store on and through every sequence of
  requests: unique primary keys, and a thread for every post (post creation looks the
  thread up, thread deletion takes the thread's posts with it, and no handler assigns
  a post's \<open>thread_id\<close>).
\<close>

theorem posts_always_reference_threads:
  "pk_unique (run rs empty_db) \<and> posts_reference_threads (run rs empty_db)"
  by (rule run_keeps_invariants) (simp_all add: pk_unique_def posts_reference_threads_def empty_db_def)

text \<open>
  Claim C5. The claim says that after every sequence of requests every post and every
  document references an existing thread, document creation and document full-replace
  included. The two document handlers look no thread up, and the engine does not check
  the foreign key: on the empty store, creating a document for thread 7 succeeds and
  leaves a document whose thread does not exist; on a store where every document has
  its thread, replacing a document with a payload for thread 9 succeeds and leaves the
  document without one.
\<close>

theorem document_handlers_leave_orphans:
  "create_document e0
     \<lparr>dc_title = ''Notes'', dc_thread_id = 7, dc_content = Text ''todo'', dc_type = ''text''\<rparr>
     empty_db
     = (\<lparr>threads = [], posts = [], documents = [orphan]\<rparr>, Inr orphan) \<and>
   d_thread_id orphan = 7 \<and>
   documents_reference_threads empty_db \<and>
   \<not> documents_reference_threads
       (run [(e0, POST_documents \<lparr>dc_title = ''Notes'', dc_thread_id = 7,
                                  dc_content = Text ''todo'', dc_type = ''text''\<rparr>)] empty_db) \<and>
   documents_reference_threads forum \<and>
   snd (update_document e1 ''d-2''
          \<lparr>dc_title = ''Log'', dc_thread_id = 9, dc_content = Text ''trace'', dc_type = ''text''\<rparr>
          forum)
     = Inr (doc_text\<lparr>d_thread_id := 9, d_updated_at := 130\<rparr>) \<and>
   \<not> documents_reference_threads
       (run [(e1, PUT_document ''d-2'' \<lparr>dc_title = ''Log'', dc_thread_id = 9,
                                        dc_content = Text ''trace'', dc_type = ''text''\<rparr>)] forum)"
  by (simp add: documents_reference_threads_def handler_defs sqlite_int_def update_row_def
        orphan_def example_defs)

section \<open>Listing the posts of a thread\<close>

text \<open>
  The handler \<^verbatim>\<open>get_posts\<close> leaves the store alone. For a thread id the engine can bind
  it returns the posts of the thread, each as often as the table holds it, in ascending
  order of \<open>time\<close>; for an id no post references that is the empty list. An id outside
  the signed 64-bit range ends the request with \<^verbatim>\<open>OverflowError\<close>.
\<close>

theorem get_posts_chronological:
  "\<exists>ps. get_posts thread_id db
           = (db, if sqlite_int thread_id then Inr ps else Inl OverflowError) \<and>
     sorted (map p_time ps) \<and>
     mset ps = filter_mset (\<lambda>p. p_thread_id p = thread_id) (mset (posts db)) \<and>
     set ps = {p \<in> set (posts db). p_thread_id p = thread_id}"
  by (rule exI [of _ "sort_key p_time (filter (\<lambda>p. p_thread_id p = thread_id) (posts db))"])
     (simp add: get_posts_def)

text \<open>
  The route of \<^verbatim>\<open>get_posts\<close> validates that list against the single-post model and so
  fails for every thread id and every store: on the validation of the response when
  the query ran, on the binding of the id otherwise. The routes that list threads and
  documents declare collection models (\<^verbatim>\<open>List[Thread]\<close>, \<^verbatim>\<open>Dict[str, Document]\<close>).
\<close>

theorem route_get_posts_never_validates:
  "route_get_posts thread_id db
     = (db, Inl (if sqlite_int thread_id then ResponseValidationError else OverflowError))"
  by (simp add: route_get_posts_def respond_def get_posts_def)

text \<open>
  Claim C6. The claim says that listing the posts of a thread returns the list of its
  posts in order of time, and the empty list for a thread without posts or an unknown
  id. The handler computes that list, but its route is declared with
  \<^verbatim>\<open>response_model=Post\<close>, a single post, so the list does not validate and the request
  is answered with an error: for thread 1 of the example store, whose posts are
  \<open>post_a1\<close> and \<open>post_a2\<close>, and for the unknown id 9, whose list is empty.
\<close>

theorem get_posts_route_rejects_list:
  "get_posts 1 forum = (forum, Inr [post_a1, post_a2]) \<and>
   route_get_posts 1 forum = (forum, Inl ResponseValidationError) \<and>
   get_posts 9 forum = (forum, Inr []) \<and>
   route_get_posts 9 forum = (forum, Inl ResponseValidationError)"
  by (simp add: route_get_posts_def respond_def get_posts_def sqlite_int_def example_defs)

end
